theory Spec2Isabelle
  imports Complex_Main "HOL-Library.AList" "HOL-Library.Product_Lexorder"
begin

section \<open>Values, files and errors\<close>

text \<open>
  The exceptions that the modelled code paths can raise. Every function that can raise
  returns a sum, with \<open>Inl\<close> the exception.
\<close>

datatype py_error =
    ValidationError
  | UnidentifiedImageError
  | AttributeError
  | ValueError
  | TypeError
  | IndexError
  | ZeroDivisionError
  | FileNotFoundError
  | DatabaseError
  | IntegrityError

text \<open>
  A decoded image as far as the code looks at it: its pixel size and colour mode, and,
  once it has been written by \<open>img.save\<close>, the container format and the encoder
  settings that were passed.
\<close>

record picture =
  width :: int
  height :: int
  mode :: string
  format :: string
  quality :: "int option"
  optimize :: bool

text \<open>The bytes of a file: either something \<open>Image.open\<close> can decode, or not.\<close>

datatype payload = NotAnImage | Encoded picture

text \<open>
  A file held by a file field. \<open>committed\<close> tells whether the file storage already
  holds it under \<open>name\<close>; a fresh upload is not committed.
\<close>

record file_obj =
  name :: string
  content_type :: string
  payload :: payload
  committed :: bool

text \<open>The value of a model attribute.\<close>

datatype fval = Null | Text string | Flag bool | Number int | File file_obj

section \<open>Classes, method resolution order and fields (models.py)\<close>

datatype py_class =
    Model
  | ImageCompressionMixin
  | SiteSettings
  | Excursion
  | ExcursionImage
  | Review
  | FAQ
  | SocialLink

text \<open>
  The linearisation of each class statement, \<open>object\<close> left out:
  \<^verbatim>\<open>class SiteSettings(models.Model, ImageCompressionMixin)\<close> puts the framework's
  \<open>Model\<close> before the mixin, whereas
  \<^verbatim>\<open>class Excursion(ImageCompressionMixin, models.Model)\<close> and
  \<^verbatim>\<open>class ExcursionImage(ImageCompressionMixin, models.Model)\<close> put the mixin first.
\<close>

fun mro :: "py_class \<Rightarrow> py_class list" where
  "mro Model = [Model]"
| "mro ImageCompressionMixin = [ImageCompressionMixin]"
| "mro SiteSettings = [SiteSettings, Model, ImageCompressionMixin]"
| "mro Excursion = [Excursion, ImageCompressionMixin, Model]"
| "mro ExcursionImage = [ExcursionImage, ImageCompressionMixin, Model]"
| "mro Review = [Review, Model]"
| "mro FAQ = [FAQ, Model]"
| "mro SocialLink = [SocialLink, Model]"

fun class_name :: "py_class \<Rightarrow> string" where
  "class_name Model = ''Model''"
| "class_name ImageCompressionMixin = ''ImageCompressionMixin''"
| "class_name SiteSettings = ''SiteSettings''"
| "class_name Excursion = ''Excursion''"
| "class_name ExcursionImage = ''ExcursionImage''"
| "class_name Review = ''Review''"
| "class_name FAQ = ''FAQ''"
| "class_name SocialLink = ''SocialLink''"

text \<open>
  The value \<open>getattr(field, "upload_to", None)\<close> of a model field: the module-level
  function \<open>upload_to\<close> for every image field of models.py, \<open>None\<close> for a field
  that is not a file field.
\<close>

datatype handler = Upload_to

text \<open>
  A field also carries what its declaration asks of the database column: whether it
  may be null, \<open>unique=True\<close>, the model a \<open>ForeignKey\<close> points to, the check of a
  \<open>PositiveIntegerField\<close>, and \<open>auto_now\<close> / \<open>auto_now_add\<close> of a date field.
\<close>

record field =
  fname :: string
  upload_to_attr :: "handler option"
  nullable :: bool
  is_unique :: bool
  references :: "py_class option"
  non_negative :: bool
  auto_now :: bool
  auto_now_add :: bool

definition plain_field :: "string \<Rightarrow> field" where
  "plain_field n =
     \<lparr>fname = n, upload_to_attr = None, nullable = False, is_unique = False,
      references = None, non_negative = False, auto_now = False, auto_now_add = False\<rparr>"

definition image_field :: "string \<Rightarrow> field" where
  "image_field n = (plain_field n)\<lparr>upload_to_attr := Some Upload_to, nullable := True\<rparr>"

definition unique_field :: "string \<Rightarrow> field" where
  "unique_field n = (plain_field n)\<lparr>is_unique := True\<rparr>"

definition foreign_key :: "string \<Rightarrow> py_class \<Rightarrow> field" where
  "foreign_key n target = (plain_field n)\<lparr>references := Some target\<rparr>"

definition positive_field :: "string \<Rightarrow> field" where
  "positive_field n = (plain_field n)\<lparr>non_negative := True\<rparr>"

definition auto_now_field :: "string \<Rightarrow> field" where
  "auto_now_field n = (plain_field n)\<lparr>auto_now := True\<rparr>"

definition auto_now_add_field :: "string \<Rightarrow> field" where
  "auto_now_add_field n = (plain_field n)\<lparr>auto_now_add := True\<rparr>"

text \<open>
  \<open>instance._meta.fields\<close>: the automatic primary key first, then the fields in the
  order of their declaration in the class body.
\<close>

fun meta_fields :: "py_class \<Rightarrow> field list" where
  "meta_fields SiteSettings =
     [plain_field ''id'', image_field ''logo'', plain_field ''slogan'',
      plain_field ''copyright_text'', image_field ''tursab_image'',
      plain_field ''address'', plain_field ''address_gmap'', plain_field ''email'',
      plain_field ''phone'', plain_field ''phone_repr'', plain_field ''whatsapp'',
      plain_field ''whatsapp_repr'', plain_field ''banner_link'',
      image_field ''banner_image'']"
| "meta_fields Excursion =
     [plain_field ''id'', plain_field ''title'', unique_field ''slug'',
      plain_field ''short_description'', plain_field ''content_md'',
      plain_field ''is_published'', auto_now_add_field ''created_at'',
      auto_now_field ''updated_at'', image_field ''cover'', image_field ''cover_head'']"
| "meta_fields ExcursionImage =
     [plain_field ''id'', foreign_key ''excursion'' Excursion, plain_field ''caption'',
      positive_field ''sort_order'', (image_field ''image'')\<lparr>nullable := False\<rparr>]"
| "meta_fields Review =
     [plain_field ''id'', image_field ''photo'', plain_field ''full_name'',
      plain_field ''text'', plain_field ''is_published'',
      auto_now_add_field ''created_at'']"
| "meta_fields FAQ =
     [plain_field ''id'', plain_field ''question'', plain_field ''answer'',
      positive_field ''sort_order'', plain_field ''is_published'']"
| "meta_fields SocialLink =
     [plain_field ''id'', plain_field ''url'', plain_field ''fa_icon'',
      plain_field ''title'', positive_field ''sort_order'', plain_field ''is_active'']"
| "meta_fields Model = []"
| "meta_fields ImageCompressionMixin = []"

text \<open>
  \<open>instance._meta.app_label\<close>: the models live in the package \<open>apps/main\<close>, whose
  label is its last component.
\<close>

definition app_label :: string where
  "app_label = ''main''"

text \<open>A model instance: its class, its primary key and its attributes.\<close>

record entity =
  cls :: py_class
  pk :: "int option"
  attrs :: "string \<rightharpoonup> fval"

section \<open>The upload-path builder (models.py, upload_to)\<close>

definition lower_char :: "char \<Rightarrow> char" where
  "lower_char c =
     (case map_of (zip ''ABCDEFGHIJKLMNOPQRSTUVWXYZ'' ''abcdefghijklmnopqrstuvwxyz'') c of
        None \<Rightarrow> c
      | Some l \<Rightarrow> l)"

definition lower :: "string \<Rightarrow> string" where
  "lower s = map lower_char s"

text \<open>
  The loop over \<open>instance._meta.fields\<close> with its \<open>break\<close>: the name of the first
  field whose \<open>upload_to\<close> attribute is the function \<open>upload_to\<close>.
\<close>

fun first_upload_field :: "field list \<Rightarrow> string option" where
  "first_upload_field [] = None"
| "first_upload_field (f # fs) =
     (if upload_to_attr f = Some Upload_to then Some (fname f) else first_upload_field fs)"

definition upload_to :: "entity \<Rightarrow> string \<Rightarrow> string" where
  "upload_to inst filename =
     (let model_name = lower (class_name (cls inst));
          field_name = first_upload_field (meta_fields (cls inst));
          field_name = (case field_name of
                          None \<Rightarrow> ''file''
                        | Some n \<Rightarrow> if n = [] then ''file'' else n)
      in app_label @ ''/'' @ model_name @ ''/'' @ field_name @ ''/'' @ filename)"

text \<open>
  The call the framework makes when the file of field \<open>f\<close> is stored: the field's own
  \<open>upload_to\<close> attribute applied to the instance and the file name. The handler is not
  told which field calls it.
\<close>

definition field_upload_path :: "field \<Rightarrow> entity \<Rightarrow> string \<Rightarrow> string" where
  "field_upload_path f inst filename =
     (case upload_to_attr f of
        None \<Rightarrow> filename
      | Some Upload_to \<Rightarrow> upload_to inst filename)"

section \<open>The image compression utility (models.py, ImageCompressionMixin)\<close>

definition default_max_width :: int where
  "default_max_width = 1280"

definition default_max_height :: int where
  "default_max_height = 1280"

definition default_quality :: int where
  "default_quality = 70"

type_synonym config = "(string \<times> int) list"

text \<open>
  The attribute \<open>image_compression_config\<close> as each class body writes it, a dict in
  insertion order; \<open>None\<close> for a class body that does not assign it.
\<close>

fun own_config :: "py_class \<Rightarrow> (string \<times> config) list option" where
  "own_config ImageCompressionMixin = Some []"
| "own_config SiteSettings =
     Some [(''banner'', [(''max_width'', 1080), (''max_height'', 520), (''quality'', 75)])]"
| "own_config Excursion =
     Some [(''cover'', [(''max_width'', 1280), (''max_height'', 1280), (''quality'', 75)]),
           (''cover_head'', [(''max_width'', 1280), (''max_height'', 1280), (''quality'', 75)])]"
| "own_config ExcursionImage =
     Some [(''image'', [(''max_width'', 1280), (''max_height'', 1280), (''quality'', 75)])]"
| "own_config Model = None"
| "own_config Review = None"
| "own_config FAQ = None"
| "own_config SocialLink = None"

text \<open>\<open>self.image_compression_config\<close>: the first class of the linearisation that has it.\<close>

fun lookup_config :: "py_class list \<Rightarrow> (string \<times> config) list option" where
  "lookup_config [] = None"
| "lookup_config (c # cs) =
     (case own_config c of None \<Rightarrow> lookup_config cs | Some m \<Rightarrow> Some m)"

definition image_compression_config :: "py_class \<Rightarrow> (string \<times> config) list option" where
  "image_compression_config c = lookup_config (mro c)"

text \<open>\<open>config.get(key, default)\<close>\<close>

definition config_get :: "config \<Rightarrow> string \<Rightarrow> int \<Rightarrow> int" where
  "config_get config key dflt = (case map_of config key of None \<Rightarrow> dflt | Some v \<Rightarrow> v)"

text \<open>
  The truth value of \<open>getattr(self, field_name, None)\<close>: a missing attribute gives
  \<open>None\<close>, and a file field counts as true when it has a name.
\<close>

fun truthy :: "fval option \<Rightarrow> bool" where
  "truthy None = False"
| "truthy (Some Null) = False"
| "truthy (Some (Text s)) = (s \<noteq> [])"
| "truthy (Some (Flag b)) = b"
| "truthy (Some (Number n)) = (n \<noteq> 0)"
| "truthy (Some (File f)) = (name f \<noteq> [])"

text \<open>
  \<open>Image.open(field)\<close>: a file whose bytes are no image raises the decoding error. A
  string is taken as a path (none exists here), any other value has no \<open>read\<close>.
\<close>

fun Image_open :: "fval \<Rightarrow> py_error + picture" where
  "Image_open (File f) =
     (case payload f of NotAnImage \<Rightarrow> Inl UnidentifiedImageError | Encoded p \<Rightarrow> Inr p)"
| "Image_open (Text s) = Inl FileNotFoundError"
| "Image_open v = Inl AttributeError"

fun field_file_name :: "fval \<Rightarrow> string" where
  "field_file_name (File f) = name f"
| "field_file_name v = []"

subsection \<open>The library's thumbnail\<close>

text \<open>
  \<open>Image.thumbnail(size)\<close> of the imaging library, as far as it decides the new size.
  The library computes the aspect ratio and its products in floating point; here they
  are exact rationals. \<open>round_aspect\<close> is
  \<^verbatim>\<open>max(min(math.floor(number), math.ceil(number), key=key), 1)\<close>, where \<open>min\<close> keeps
  its first argument on a tie.
\<close>

definition round_aspect :: "rat \<Rightarrow> (int \<Rightarrow> rat) \<Rightarrow> int" where
  "round_aspect number key =
     (let a = \<lfloor>number\<rfloor>; b = \<lceil>number\<rceil>
      in max (if key b < key a then b else a) 1)"

definition preserve_aspect_ratio ::
  "int \<times> int \<Rightarrow> int \<times> int \<Rightarrow> py_error + (int \<times> int) option" where
  "preserve_aspect_ratio provided_size sz =
     (let x = fst provided_size; y = snd provided_size; w = fst sz; h = snd sz
      in if x \<ge> w \<and> y \<ge> h then Inr None
         else if h = 0 then Inl ZeroDivisionError
         else
           let aspect = (of_int w / of_int h :: rat)
           in if y = 0 then Inl ZeroDivisionError
              else if of_int x / of_int y \<ge> aspect then
                Inr (Some (round_aspect (of_int y * aspect)
                             (\<lambda>n. \<bar>aspect - of_int n / of_int y\<bar>), y))
              else if aspect = 0 then Inl ZeroDivisionError
              else
                Inr (Some (x, round_aspect (of_int x / aspect)
                                (\<lambda>n. if n = 0 then 0 else \<bar>aspect - of_int x / of_int n\<bar>))))"

text \<open>
  The image is resized only when the computed size differs from its own; the resize
  refuses a size below one pixel.
\<close>

definition thumbnail :: "int \<times> int \<Rightarrow> picture \<Rightarrow> py_error + picture" where
  "thumbnail sz img =
     (case preserve_aspect_ratio sz (width img, height img) of
        Inl e \<Rightarrow> Inl e
      | Inr None \<Rightarrow> Inr img
      | Inr (Some final_size) \<Rightarrow>
          if (width img, height img) \<noteq> final_size then
            (if fst final_size < 1 \<or> snd final_size < 1 then Inl ValueError
             else Inr (img\<lparr>width := fst final_size, height := snd final_size\<rparr>))
          else Inr img)"

subsection \<open>The stem of a path\<close>

fun split_slash :: "string \<Rightarrow> string list" where
  "split_slash [] = [[]]"
| "split_slash (c # cs) =
     (if c = CHR ''/'' then [] # split_slash cs
      else (case split_slash cs of [] \<Rightarrow> [[c]] | p # ps \<Rightarrow> (c # p) # ps))"

text \<open>\<open>Path(s).name\<close>: the last component, empty and \<open>.\<close> components dropped.\<close>

definition path_name :: "string \<Rightarrow> string" where
  "path_name s =
     (case filter (\<lambda>p. p \<noteq> [] \<and> p \<noteq> ''.'') (split_slash s) of
        [] \<Rightarrow> []
      | p # ps \<Rightarrow> last (p # ps))"

text \<open>\<open>s.rfind(c)\<close>: the last position of \<open>c\<close>, or \<open>-1\<close>.\<close>

definition rfind :: "char \<Rightarrow> string \<Rightarrow> int" where
  "rfind c s =
     (if c \<in> set s then int (length s) - 1 - int (length (takeWhile (\<lambda>x. x \<noteq> c) (rev s)))
      else - 1)"

text \<open>
  \<open>Path(s).stem\<close>: the name without its last suffix; a leading or a trailing dot
  starts no suffix.
\<close>

definition path_stem :: "string \<Rightarrow> string" where
  "path_stem s =
     (let n = path_name s; i = rfind CHR ''.'' n
      in if 0 < i \<and> i < int (length n) - 1 then take (nat i) n else n)"

subsection \<open>Compressing the fields\<close>

definition compress_image_field :: "entity \<Rightarrow> string \<Rightarrow> config \<Rightarrow> py_error + entity" where
  "compress_image_field self field_name config =
     (case attrs self field_name of
        None \<Rightarrow> Inr self
      | Some field \<Rightarrow>
          if \<not> truthy (Some field) then Inr self
          else
            (case Image_open field of
               Inl e \<Rightarrow> Inl e
             | Inr opened \<Rightarrow>
                 let img = (if mode opened \<noteq> ''RGB'' then opened\<lparr>mode := ''RGB''\<rparr> else opened);
                     max_width = config_get config ''max_width'' default_max_width;
                     max_height = config_get config ''max_height'' default_max_height;
                     q = config_get config ''quality'' default_quality
                 in (case thumbnail (max_width, max_height) img of
                       Inl e \<Rightarrow> Inl e
                     | Inr small \<Rightarrow>
                         let img_io = small\<lparr>format := ''JPEG'', quality := Some q,
                                             optimize := True\<rparr>;
                             original_name = path_stem (field_file_name field);
                             new_name = original_name @ ''.jpg'';
                             compressed_file = \<lparr>name = new_name,
                                                content_type = ''image/jpeg'',
                                                payload = Encoded img_io,
                                                committed = False\<rparr>
                         in Inr (self\<lparr>attrs := (attrs self)(field_name \<mapsto>
                                                   File compressed_file)\<rparr>))))"

fun compress_each :: "(string \<times> config) list \<Rightarrow> entity \<Rightarrow> py_error + entity" where
  "compress_each [] self = Inr self"
| "compress_each ((field_name, config) # rest) self =
     (case compress_image_field self field_name config of
        Inl e \<Rightarrow> Inl e
      | Inr self' \<Rightarrow> compress_each rest self')"

definition compress_images :: "entity \<Rightarrow> py_error + entity" where
  "compress_images self =
     (case image_compression_config (cls self) of
        None \<Rightarrow> Inl AttributeError
      | Some items \<Rightarrow> compress_each items self)"

section \<open>Storage and the save operations (models.py)\<close>

text \<open>
  A table is a list of rows by primary key; the database also records every write made
  to it: the table, the key, and the \<open>update_fields\<close> restriction when there was one.
  With the tables go the file storage and the clock:
  \<^item> \<open>stored_names\<close> are the names the file storage holds;
  \<^item> \<open>storage_name taken offered\<close> is the name under which the storage saves a file
    offered as \<open>offered\<close> when it holds the names \<open>taken\<close> (the framework's storage
    cleans the base name and, when the name is taken, appends a random suffix);
  \<^item> \<open>clock\<close> is the time a date field reads.
\<close>

type_synonym row = "string \<rightharpoonup> fval"

datatype db_write = Write py_class int "string list option"

record db =
  tables :: "py_class \<Rightarrow> (int \<times> row) list"
  writes :: "db_write list"
  stored_names :: "string list"
  storage_name :: "string list \<Rightarrow> string \<Rightarrow> string"
  clock :: int

type_synonym 'a result = "(py_error + 'a) \<times> db"

definition columns :: "py_class \<Rightarrow> field list" where
  "columns c = filter (\<lambda>f. fname f \<noteq> ''id'') (meta_fields c)"

definition column_names :: "py_class \<Rightarrow> string list" where
  "column_names c = filter (\<lambda>n. n \<noteq> ''id'') (map fname (meta_fields c))"

definition next_pk :: "(int \<times> row) list \<Rightarrow> int" where
  "next_pk t = fold max (map fst t) 0 + 1"

text \<open>
  What the framework does to one column before the row is written (\<open>pre_save\<close>).
  A date field with \<open>auto_now\<close>, or with \<open>auto_now_add\<close> when the row is added, takes
  the time of the clock. A file field whose file has a name and is not committed hands
  the file to the storage, under the name its \<open>upload_to\<close> builds from the file's
  name, and the attribute becomes the committed file under the name the storage gave.
\<close>

definition pre_save_field :: "bool \<Rightarrow> field \<Rightarrow> entity \<Rightarrow> db \<Rightarrow> entity \<times> db" where
  "pre_save_field add fld self d =
     (if auto_now fld \<or> (auto_now_add fld \<and> add) then
        (self\<lparr>attrs := (attrs self)(fname fld \<mapsto> Number (clock d))\<rparr>, d)
      else
        (case attrs self (fname fld) of
           Some (File f) \<Rightarrow>
             if upload_to_attr fld \<noteq> None \<and> name f \<noteq> [] \<and> \<not> committed f then
               (let n = storage_name d (stored_names d) (field_upload_path fld self (name f))
                in (self\<lparr>attrs := (attrs self)(fname fld \<mapsto>
                                       File (f\<lparr>name := n, committed := True\<rparr>))\<rparr>,
                    d\<lparr>stored_names := n # stored_names d\<rparr>))
             else (self, d)
         | _ \<Rightarrow> (self, d)))"

fun pre_save :: "bool \<Rightarrow> field list \<Rightarrow> entity \<Rightarrow> db \<Rightarrow> entity \<times> db" where
  "pre_save add [] self d = (self, d)"
| "pre_save add (fld # flds) self d =
     (case pre_save_field add fld self d of (self', d') \<Rightarrow> pre_save add flds self' d')"

definition is_null :: "fval option \<Rightarrow> bool" where
  "is_null v = (v = None \<or> v = Some Null)"

text \<open>
  The constraints of one column on the row \<open>r\<close> written under key \<open>k\<close> into table
  \<open>t\<close>. A file column stores the name of its file, or the empty string, and is never
  null. Any other column is null only when nullable; when not null, a unique column
  differs from that of every other row, a foreign key is the key of a row of the model
  it points to, and a positive integer is not negative.
\<close>

definition column_ok ::
  "(int \<times> row) list \<Rightarrow> (py_class \<Rightarrow> (int \<times> row) list) \<Rightarrow> int \<Rightarrow> row \<Rightarrow> field \<Rightarrow> bool" where
  "column_ok t tabs k r fld =
     (let v = r (fname fld)
      in if upload_to_attr fld \<noteq> None then True
         else if is_null v then nullable fld
         else
           (if is_unique fld
            then list_all (\<lambda>other. fst other = k \<or> snd other (fname fld) \<noteq> v) t
            else True)
           \<and> (case references fld of
                None \<Rightarrow> True
              | Some target \<Rightarrow>
                  (case v of Some (Number j) \<Rightarrow> map_of (tabs target) j \<noteq> None | _ \<Rightarrow> False))
           \<and> (if non_negative fld
               then (case v of Some (Number n) \<Rightarrow> 0 \<le> n | _ \<Rightarrow> False)
               else True))"

text \<open>
  The framework's \<open>Model.save(update_fields=...)\<close>, which calls no further \<open>save\<close>.
  \<^item> Without \<open>update_fields\<close> it prepares every column, a new instance taking the next
    key, and writes the whole row: an update when the key has a row, else an insert.
  \<^item> With an empty list it returns at once; with a name that is no column, or without
    a key, it raises a value error; otherwise it prepares the named columns and
    overwrites them in the existing row, and raises a database error when there is
    no such row.
  \<^item> A row that breaks a constraint of a written column is refused with an integrity
    error: nothing is written to the table, while the files already handed to the
    storage stay there.
\<close>

definition Model_save :: "string list option \<Rightarrow> entity \<Rightarrow> db \<Rightarrow> entity result" where
  "Model_save update_fields self d =
     (let c = cls self; t = tables d c
      in case update_fields of
           None \<Rightarrow>
             (let k = (case pk self of None \<Rightarrow> next_pk t | Some k \<Rightarrow> k)
              in case pre_save (map_of t k = None) (columns c) self d of
                   (self1, d1) \<Rightarrow>
                     (let r = (\<lambda>n. if n \<in> set (column_names c) then attrs self1 n else None)
                      in if \<not> list_all (column_ok t (tables d) k r) (columns c)
                         then (Inl IntegrityError, d1)
                         else (Inr (self1\<lparr>pk := Some k\<rparr>),
                               d1\<lparr>tables := (tables d1)(c := AList.update k r t),
                                  writes := writes d1 @ [Write c k None]\<rparr>)))
         | Some names \<Rightarrow>
             if names = [] then (Inr self, d)
             else if \<not> list_all (\<lambda>n. n \<in> set (column_names c)) names then (Inl ValueError, d)
             else
               (case pk self of
                  None \<Rightarrow> (Inl ValueError, d)
                | Some k \<Rightarrow>
                    (let cols = filter (\<lambda>f. fname f \<in> set names) (columns c)
                     in case pre_save False cols self d of
                          (self1, d1) \<Rightarrow>
                            (case map_of t k of
                               None \<Rightarrow> (Inl DatabaseError, d1)
                             | Some old \<Rightarrow>
                                 (let r = (\<lambda>n. if n \<in> set names then attrs self1 n else old n)
                                  in if \<not> list_all (column_ok t (tables d) k r) cols
                                     then (Inl IntegrityError, d1)
                                     else (Inr self1,
                                           d1\<lparr>tables := (tables d1)(c := AList.update k r t),
                                              writes := writes d1 @ [Write c k (Some names)]\<rparr>))))))"

text \<open>
  \<open>save\<close> along a linearisation: the first class of the list that defines \<open>save\<close>
  runs, and its \<open>super().save(...)\<close> continues with the rest of the list.
  \<^item> \<open>SiteSettings.save\<close> refuses an instance without key when a row exists, else
    gives it key 1, and calls \<open>super().save\<close>.
  \<^item> \<open>ImageCompressionMixin.save\<close> calls \<open>super().save\<close>, compresses, and calls
    \<open>super().save\<close> again with the keys of the policy map as \<open>update_fields\<close>.
  \<^item> \<open>Model.save\<close> writes and calls nothing further.
  \<^item> The other classes define no \<open>save\<close>.
\<close>

fun call_save :: "py_class list \<Rightarrow> string list option \<Rightarrow> entity \<Rightarrow> db \<Rightarrow> entity result" where
  "call_save [] update_fields self d = (Inl AttributeError, d)"
| "call_save (SiteSettings # rest) update_fields self d =
     (if pk self = None \<or> pk self = Some 0 then
        (if tables d (cls self) \<noteq> [] then (Inl ValidationError, d)
         else call_save rest update_fields (self\<lparr>pk := Some 1\<rparr>) d)
      else call_save rest update_fields self d)"
| "call_save (ImageCompressionMixin # rest) update_fields self d =
     (case call_save rest update_fields self d of
        (Inl e, d1) \<Rightarrow> (Inl e, d1)
      | (Inr self1, d1) \<Rightarrow>
          (case compress_images self1 of
             Inl e \<Rightarrow> (Inl e, d1)
           | Inr self2 \<Rightarrow>
               (case image_compression_config (cls self2) of
                  None \<Rightarrow> (Inl AttributeError, d1)
                | Some items \<Rightarrow> call_save rest (Some (map fst items)) self2 d1)))"
| "call_save (Model # rest) update_fields self d = Model_save update_fields self d"
| "call_save (c # rest) update_fields self d = call_save rest update_fields self d"

text \<open>\<open>instance.save()\<close>\<close>

definition save :: "entity \<Rightarrow> db \<Rightarrow> entity result" where
  "save self d = call_save (mro (cls self)) None self d"

subsection \<open>The settings singleton\<close>

text \<open>The attributes of \<open>SiteSettings(pk=1)\<close>: every field at its default.\<close>

definition SiteSettings_defaults :: row where
  "SiteSettings_defaults =
     map_of [(''logo'', Null), (''slogan'', Text []), (''copyright_text'', Text []),
             (''tursab_image'', Null), (''address'', Text []), (''address_gmap'', Text []),
             (''email'', Text []), (''phone'', Text []), (''phone_repr'', Text []),
             (''whatsapp'', Text []), (''whatsapp_repr'', Text []),
             (''banner_link'', Text []), (''banner_image'', Null)]"

text \<open>
  \<open>SiteSettings.load()\<close>, that is \<open>cls.objects.get_or_create(pk=1)\<close>: the row with
  key 1 when there is one, else a new instance with key 1, saved.
\<close>

definition load :: "db \<Rightarrow> entity result" where
  "load d =
     (case map_of (tables d SiteSettings) 1 of
        Some r \<Rightarrow> (Inr \<lparr>cls = SiteSettings, pk = Some 1, attrs = r\<rparr>, d)
      | None \<Rightarrow> save \<lparr>cls = SiteSettings, pk = Some 1, attrs = SiteSettings_defaults\<rparr> d)"

section \<open>The presentation data helpers (templatetags/utils.py)\<close>

text \<open>
  The class methods that the class bodies of models.py define, by name. The framework's
  \<open>Model\<close> has none called \<open>load\<close> or \<open>get_solo\<close>.
\<close>

fun own_classmethod :: "py_class \<Rightarrow> string \<Rightarrow> (db \<Rightarrow> entity result) option" where
  "own_classmethod SiteSettings n = (if n = ''load'' then Some load else None)"
| "own_classmethod c n = None"

text \<open>
  \<open>cls.name()\<close>: the attribute is looked up along the linearisation of the class; a
  name that no class has raises an attribute error.
\<close>

fun lookup_classmethod :: "py_class list \<Rightarrow> string \<Rightarrow> (db \<Rightarrow> entity result) option" where
  "lookup_classmethod [] n = None"
| "lookup_classmethod (c # cs) n =
     (case own_classmethod c n of None \<Rightarrow> lookup_classmethod cs n | Some m \<Rightarrow> Some m)"

definition call_classmethod :: "py_class \<Rightarrow> string \<Rightarrow> db \<Rightarrow> entity result" where
  "call_classmethod c n d =
     (case lookup_classmethod (mro c) n of None \<Rightarrow> (Inl AttributeError, d) | Some m \<Rightarrow> m d)"

definition get_site_settings :: "db \<Rightarrow> entity result" where
  "get_site_settings d = call_classmethod SiteSettings ''get_solo'' d"

fun num :: "fval option \<Rightarrow> int" where
  "num (Some (Number n)) = n"
| "num v = 0"

text \<open>
  \<open>Meta.ordering\<close> as a sort key on a row with its key: \<open>("-created_at",)\<close> for
  excursions and reviews, \<open>("sort_order", "id")\<close> for gallery images, FAQ entries and
  social links. Rows that the ordering does not tell apart keep their table order.
\<close>

fun ordering :: "py_class \<Rightarrow> int \<times> row \<Rightarrow> int \<times> int" where
  "ordering Excursion (k, r) = (- num (r ''created_at''), 0)"
| "ordering Review (k, r) = (- num (r ''created_at''), 0)"
| "ordering ExcursionImage (k, r) = (num (r ''sort_order''), k)"
| "ordering FAQ (k, r) = (num (r ''sort_order''), k)"
| "ordering SocialLink (k, r) = (num (r ''sort_order''), k)"
| "ordering c (k, r) = (0, 0)"

definition from_row :: "py_class \<Rightarrow> int \<times> row \<Rightarrow> entity" where
  "from_row c kr = \<lparr>cls = c, pk = Some (fst kr), attrs = snd kr\<rparr>"

text \<open>\<open>cls.objects.all()\<close>: every row of the table, in the order of \<open>Meta.ordering\<close>.\<close>

definition objects_all :: "py_class \<Rightarrow> db \<Rightarrow> entity list" where
  "objects_all c d = map (from_row c) (sort_key (ordering c) (tables d c))"

definition get_excursion_list :: "db \<Rightarrow> entity list" where
  "get_excursion_list d = objects_all Excursion d"

definition get_review_list :: "db \<Rightarrow> entity list" where
  "get_review_list d = objects_all Review d"

definition get_faq_list :: "db \<Rightarrow> entity list" where
  "get_faq_list d = objects_all FAQ d"

subsection \<open>The index filter\<close>

datatype pyval = NoneV | IntV int | StrV string

definition is_space :: "char \<Rightarrow> bool" where
  "is_space c =
     (c \<in> set [CHR '' '', CHR 0x09, CHR 0x0A, CHR 0x0B, CHR 0x0C, CHR 0x0D,
                CHR 0x1C, CHR 0x1D, CHR 0x1E, CHR 0x1F])"

definition strip :: "string \<Rightarrow> string" where
  "strip s = rev (dropWhile is_space (rev (dropWhile is_space s)))"

definition digit_val :: "char \<Rightarrow> int option" where
  "digit_val c = map_of (zip ''0123456789'' [0, 1, 2, 3, 4, 5, 6, 7, 8, 9]) c"

text \<open>
  The digits of a decimal literal, most significant first; a single underscore is
  allowed between two digits. \<open>after_digit\<close> tells whether the previous character was
  a digit.
\<close>

fun digits_value :: "bool \<Rightarrow> int \<Rightarrow> string \<Rightarrow> int option" where
  "digits_value after_digit acc [] = (if after_digit then Some acc else None)"
| "digits_value after_digit acc (c # cs) =
     (if c = CHR ''_'' then
        (if after_digit then
           (case cs of
              [] \<Rightarrow> None
            | d # _ \<Rightarrow> if d = CHR ''_'' then None else digits_value False acc cs)
         else None)
      else
        (case digit_val c of
           None \<Rightarrow> None
         | Some v \<Rightarrow> digits_value True (10 * acc + v) cs))"

definition parse_int :: "string \<Rightarrow> int option" where
  "parse_int s =
     (case strip s of
        [] \<Rightarrow> None
      | c # cs \<Rightarrow>
          if c = CHR ''-'' then map_option uminus (digits_value False 0 cs)
          else if c = CHR ''+'' then digits_value False 0 cs
          else digits_value False 0 (c # cs))"

text \<open>The builtin \<open>int(i)\<close> on the values a template passes.\<close>

fun py_int :: "pyval \<Rightarrow> py_error + int" where
  "py_int NoneV = Inl TypeError"
| "py_int (IntV n) = Inr n"
| "py_int (StrV s) = (case parse_int s of None \<Rightarrow> Inl ValueError | Some n \<Rightarrow> Inr n)"

text \<open>\<open>list_obj[j]\<close>: a negative index counts from the end, out of range raises.\<close>

definition getitem :: "pyval list \<Rightarrow> int \<Rightarrow> py_error + pyval" where
  "getitem xs j =
     (let n = int (length xs); k = (if j < 0 then n + j else j)
      in if 0 \<le> k \<and> k < n then Inr (xs ! nat k) else Inl IndexError)"

text \<open>
  \<open>try: body finally: fin\<close>. When the \<open>finally\<close> block itself returns or raises
  (\<open>Some\<close>), that outcome replaces the one of the body, whether the body returned or
  raised; when it runs to its end (\<open>None\<close>), the outcome of the body stands.
\<close>

definition try_finally :: "py_error + 'a \<Rightarrow> (py_error + 'a) option \<Rightarrow> py_error + 'a" where
  "try_finally body fin = (case fin of None \<Rightarrow> body | Some r \<Rightarrow> r)"

definition index_body :: "pyval list \<Rightarrow> pyval \<Rightarrow> py_error + pyval" where
  "index_body list_obj i =
     (case py_int i of Inl e \<Rightarrow> Inl e | Inr j \<Rightarrow> getitem list_obj j)"

definition index :: "pyval list \<Rightarrow> pyval \<Rightarrow> py_error + pyval" where
  "index list_obj i = try_finally (index_body list_obj i) (Some (Inr (StrV '''')))"

section \<open>The administrative surface (admin.py)\<close>

record request =
  user_perms :: "string list"

text \<open>
  The framework's \<open>ModelAdmin.has_add_permission\<close>: the user holds the \<open>add\<close>
  permission of the model.
\<close>

definition ModelAdmin_has_add_permission :: "py_class \<Rightarrow> request \<Rightarrow> bool" where
  "ModelAdmin_has_add_permission c req =
     (app_label @ ''.add_'' @ lower (class_name c) \<in> set (user_perms req))"

text \<open>\<open>SiteSettingsAdmin.has_add_permission\<close>\<close>

definition has_add_permission :: "db \<Rightarrow> request \<Rightarrow> bool" where
  "has_add_permission d req =
     (if tables d SiteSettings \<noteq> [] then False
      else ModelAdmin_has_add_permission SiteSettings req)"

text \<open>
  The rows an admin list shows: no admin class of admin.py overrides \<open>get_queryset\<close>,
  so it is the default manager's \<open>all()\<close>.
\<close>

definition admin_queryset :: "py_class \<Rightarrow> db \<Rightarrow> entity list" where
  "admin_queryset c d = objects_all c d"

section \<open>Example data\<close>

text \<open>A storage that keeps the name it is offered, as for a clean name not yet taken.\<close>

definition keep_name :: "string list \<Rightarrow> string \<Rightarrow> string" where
  "keep_name taken offered = offered"

definition empty_db :: db where
  "empty_db =
     \<lparr>tables = (\<lambda>c. []), writes = [], stored_names = [], storage_name = keep_name, clock = 0\<rparr>"

definition settings_db :: db where
  "settings_db = empty_db\<lparr>tables := (\<lambda>c. [])(SiteSettings := [(1, SiteSettings_defaults)])\<rparr>"

definition unpublished_row :: row where
  "unpublished_row = [''title'' \<mapsto> Text ''Draft tour'', ''is_published'' \<mapsto> Flag False]"

definition unpublished_db :: db where
  "unpublished_db = empty_db\<lparr>tables := (\<lambda>c. [])(Excursion := [(1, unpublished_row)])\<rparr>"

definition second_settings :: entity where
  "second_settings =
     \<lparr>cls = SiteSettings, pk = None, attrs = SiteSettings_defaults(''slogan'' \<mapsto> Text ''x'')\<rparr>"

definition png_4000_3000 :: payload where
  "png_4000_3000 =
     Encoded \<lparr>width = 4000, height = 3000, mode = ''RGBA'', format = ''PNG'',
              quality = None, optimize = False\<rparr>"

definition raw_banner :: file_obj where
  "raw_banner =
     \<lparr>name = ''banner.png'', content_type = ''image/png'', payload = png_4000_3000,
      committed = False\<rparr>"

definition stored_banner :: file_obj where
  "stored_banner = raw_banner\<lparr>name := ''main/sitesettings/logo/banner.png'', committed := True\<rparr>"

definition settings_with_banner :: entity where
  "settings_with_banner =
     \<lparr>cls = SiteSettings, pk = Some 1,
      attrs = SiteSettings_defaults(''banner_image'' \<mapsto> File raw_banner)\<rparr>"

definition broken_upload :: file_obj where
  "broken_upload =
     \<lparr>name = ''notes.png'', content_type = ''image/png'', payload = NotAnImage,
      committed = False\<rparr>"

definition gallery_item :: entity where
  "gallery_item =
     \<lparr>cls = ExcursionImage, pk = None,
      attrs = [''excursion'' \<mapsto> Number 1, ''caption'' \<mapsto> Text [],
               ''sort_order'' \<mapsto> Number 0, ''image'' \<mapsto> File broken_upload]\<rparr>"

definition tour_row :: row where
  "tour_row =
     [''title'' \<mapsto> Text ''Tour'', ''slug'' \<mapsto> Text ''tour'',
      ''short_description'' \<mapsto> Text [], ''content_md'' \<mapsto> Text [],
      ''is_published'' \<mapsto> Flag True, ''created_at'' \<mapsto> Number 0,
      ''updated_at'' \<mapsto> Number 0, ''cover'' \<mapsto> Null, ''cover_head'' \<mapsto> Null]"

definition tour_db :: db where
  "tour_db = empty_db\<lparr>tables := (\<lambda>c. [])(Excursion := [(1, tour_row)])\<rparr>"

definition uploaded_cover :: file_obj where
  "uploaded_cover =
     \<lparr>name = ''photo.final.png'', content_type = ''image/png'', payload = png_4000_3000,
      committed = False\<rparr>"

definition raw_cover :: file_obj where
  "raw_cover =
     \<lparr>name = ''main/excursion/cover/photo.final.png'', content_type = ''image/png'',
      payload = Encoded \<lparr>width = 4000, height = 3000, mode = ''RGBA'', format = ''PNG'',
                         quality = None, optimize = False\<rparr>,
      committed = True\<rparr>"

definition compressed_cover :: file_obj where
  "compressed_cover =
     \<lparr>name = ''photo.final.jpg'', content_type = ''image/jpeg'',
      payload = Encoded \<lparr>width = 1280, height = 960, mode = ''RGB'', format = ''JPEG'',
                         quality = Some 75, optimize = True\<rparr>,
      committed = False\<rparr>"

definition stored_cover :: file_obj where
  "stored_cover =
     compressed_cover\<lparr>name := ''main/excursion/cover/photo.final.jpg'', committed := True\<rparr>"

definition excursion_with_cover :: entity where
  "excursion_with_cover =
     \<lparr>cls = Excursion, pk = Some 1,
      attrs = [''title'' \<mapsto> Text ''Tour'', ''is_published'' \<mapsto> Flag True,
               ''cover'' \<mapsto> File raw_cover, ''cover_head'' \<mapsto> Null]\<rparr>"

definition new_excursion :: entity where
  "new_excursion =
     \<lparr>cls = Excursion, pk = None,
      attrs = [''title'' \<mapsto> Text ''Tour'', ''slug'' \<mapsto> Text ''tour'',
               ''short_description'' \<mapsto> Text [], ''content_md'' \<mapsto> Text [],
               ''is_published'' \<mapsto> Flag True, ''cover'' \<mapsto> File uploaded_cover,
               ''cover_head'' \<mapsto> Null]\<rparr>"

definition cover_policy :: config where
  "cover_policy = [(''max_width'', 1280), (''max_height'', 1280), (''quality'', 75)]"

section \<open>Properties\<close>

subsection \<open>The index filter\<close>

lemma index_body_example:
  "index_body [StrV ''a'', StrV ''b''] (StrV '' 1 '') = Inr (StrV ''b'')"
  by (simp add: index_body_def parse_int_def strip_def is_space_def digit_val_def getitem_def)

text \<open>
  C9. For every list and every index value the \<open>index\<close> filter returns the empty
  string: the \<open>return\<close> inside \<open>finally\<close> discards both a failed lookup (index out of
  range, argument that is not an integer) and the element a successful lookup found.
\<close>

theorem index_returns_empty_string:
  "index list_obj i = Inr (StrV '''')"
  by (simp add: index_def try_finally_def)

subsection \<open>The upload path\<close>

lemma lower_SiteSettings: "lower ''SiteSettings'' = ''sitesettings''"
  by (simp add: lower_def lower_char_def)

text \<open>
  C7. The claim is that the field segment of the storage path names the image field
  that received the upload. \<open>upload_to\<close> takes the first field of the model whose
  handler is \<open>upload_to\<close>: an upload to \<open>banner_image\<close> of the site settings, whatever
  the instance and the file name, is stored under \<open>logo\<close>.
\<close>

theorem upload_to_ignores_receiving_field:
  "field_upload_path (image_field ''banner_image'')
     \<lparr>cls = SiteSettings, pk = p, attrs = a\<rparr> filename
     = ''main/sitesettings/logo/'' @ filename
   \<and> image_field ''banner_image'' \<in> set (meta_fields SiteSettings)"
  by (simp add: field_upload_path_def upload_to_def image_field_def plain_field_def
      app_label_def lower_SiteSettings)

subsection \<open>The administrative surface\<close>

text \<open>
  C10. Whenever a settings record exists, \<open>SiteSettingsAdmin.has_add_permission\<close>
  answers no, whatever permissions the user of the request holds.
\<close>

theorem has_add_permission_denied:
  "tables d SiteSettings \<noteq> [] \<Longrightarrow> \<not> has_add_permission d req"
  by (simp add: has_add_permission_def)

theorem has_add_permission_denied_witness:
  "tables settings_db SiteSettings \<noteq> []
   \<and> \<not> has_add_permission settings_db \<lparr>user_perms = [''main.add_sitesettings'']\<rparr>
   \<and> ModelAdmin_has_add_permission SiteSettings \<lparr>user_perms = [''main.add_sitesettings'']\<rparr>"
proof -
  have h: "tables settings_db SiteSettings \<noteq> []"
    by (simp add: settings_db_def)
  show ?thesis
    using h has_add_permission_denied [OF h, of "\<lparr>user_perms = [''main.add_sitesettings'']\<rparr>"]
    by (simp add: ModelAdmin_has_add_permission_def app_label_def lower_SiteSettings)
qed

subsection \<open>The presentation data helpers\<close>

text \<open>
  C2. The claim is that the settings helper returns the singleton and never raises.
  \<open>get_site_settings\<close> calls \<open>SiteSettings.get_solo()\<close>, a name that no class of the
  linearisation defines (the accessor of models.py is \<open>load\<close>): on every database the
  call raises an attribute error and leaves the database as it was.
\<close>

theorem get_site_settings_raises:
  "get_site_settings d = (Inl AttributeError, d)
   \<and> call_classmethod SiteSettings ''load'' d = load d"
  by (simp add: get_site_settings_def call_classmethod_def)

lemma set_objects_all: "set (objects_all c d) = from_row c ` set (tables d c)"
  by (simp add: objects_all_def)

text \<open>
  C8, as stated: records whose published flag is unset are left out of the lists the
  helpers return. It fails: the only excursion of \<open>unpublished_db\<close> is unpublished and
  \<open>get_excursion_list\<close> returns it.
\<close>

theorem helpers_include_unpublished:
  "from_row Excursion (1, unpublished_row) \<in> set (get_excursion_list unpublished_db)
   \<and> attrs (from_row Excursion (1, unpublished_row)) ''is_published'' = Some (Flag False)"
  by (simp add: get_excursion_list_def set_objects_all unpublished_db_def from_row_def
      unpublished_row_def)

text \<open>
  C8, amended: the three list helpers return every stored record of their table,
  whatever its published flag, and the admin lists show every stored record as well.
\<close>

theorem helpers_return_every_row:
  "set (get_excursion_list d) = from_row Excursion ` set (tables d Excursion)
   \<and> set (get_review_list d) = from_row Review ` set (tables d Review)
   \<and> set (get_faq_list d) = from_row FAQ ` set (tables d FAQ)
   \<and> set (admin_queryset c d) = from_row c ` set (tables d c)"
  by (simp add: get_excursion_list_def get_review_list_def get_faq_list_def
      admin_queryset_def set_objects_all)

subsection \<open>The image compression utility\<close>

text \<open>
  The rounded side is at least one pixel, no larger than the bound it was computed for,
  and less than one pixel away from the exact quotient.
\<close>

lemma round_aspect_bounds:
  assumes "0 < v" and "v \<le> of_int m"
  shows "1 \<le> round_aspect v key \<and> round_aspect v key \<le> m
         \<and> \<bar>of_int (round_aspect v key) - v\<bar> < 1"
proof -
  define c where "c = (if key \<lceil>v\<rceil> < key \<lfloor>v\<rfloor> then \<lceil>v\<rceil> else \<lfloor>v\<rfloor>)"
  have r: "round_aspect v key = max c 1"
    by (simp add: round_aspect_def c_def Let_def)
  have fl: "of_int \<lfloor>v\<rfloor> \<le> v" "v < of_int \<lfloor>v\<rfloor> + 1"
    by linarith+
  have ce: "of_int \<lceil>v\<rceil> - 1 < v" "v \<le> of_int \<lceil>v\<rceil>"
    by linarith+
  have f0: "0 \<le> \<lfloor>v\<rfloor>" using assms(1) by simp
  have c1: "1 \<le> \<lceil>v\<rceil>" using assms(1) by (simp add: less_ceiling_iff)
  have cm: "\<lceil>v\<rceil> \<le> m" using assms(2) by (simp add: ceiling_le_iff)
  have fc: "\<lfloor>v\<rfloor> \<le> \<lceil>v\<rceil>" by (rule floor_le_ceiling)
  have cases: "c = \<lfloor>v\<rfloor> \<or> c = \<lceil>v\<rceil>" by (simp add: c_def)
  have m1: "1 \<le> m" using c1 cm by linarith
  have cle: "c \<le> m" using cases fc cm by arith
  show ?thesis
  proof (cases "1 \<le> c")
    case True
    then have "max c 1 = c" by simp
    moreover have "\<bar>of_int c - v\<bar> < 1" using cases fl ce by auto
    ultimately show ?thesis using True cle r by simp
  next
    case False
    then have "c = \<lfloor>v\<rfloor>" using cases c1 by auto
    with False f0 have "\<lfloor>v\<rfloor> = 0" by linarith
    with fl have "v < 1" by simp
    moreover from False have "max c 1 = 1" by simp
    ultimately show ?thesis using assms(1) m1 r by simp
  qed
qed

lemma preserve_aspect_ratio_bounds:
  assumes "1 \<le> w" "1 \<le> h" "1 \<le> x" "1 \<le> y" "\<not> (w \<le> x \<and> h \<le> y)"
  shows "\<exists>x' y'. preserve_aspect_ratio (x, y) (w, h) = Inr (Some (x', y'))
           \<and> 1 \<le> x' \<and> x' \<le> x \<and> 1 \<le> y' \<and> y' \<le> y
           \<and> ((y' = y \<and> \<bar>of_int x' - of_int y * (of_int w / of_int h :: rat)\<bar> < 1)
              \<or> (x' = x \<and> \<bar>of_int y' - of_int x * (of_int h / of_int w :: rat)\<bar> < 1))"
proof -
  let ?aspect = "of_int w / of_int h :: rat"
  have pos: "(0::rat) < of_int w" "(0::rat) < of_int h" "(0::rat) < of_int x" "(0::rat) < of_int y"
    using assms by simp_all
  have apos: "0 < ?aspect" using pos by simp
  show ?thesis
  proof (cases "of_int x / of_int y \<ge> ?aspect")
    case True
    define key where "key = (\<lambda>n. \<bar>?aspect - of_int n / of_int y\<bar>)"
    define v where "v = of_int y * ?aspect"
    have "0 < v" using pos apos by (simp add: v_def)
    moreover have "v \<le> of_int x" using True pos by (simp add: v_def field_simps)
    ultimately have b: "1 \<le> round_aspect v key \<and> round_aspect v key \<le> x
         \<and> \<bar>of_int (round_aspect v key) - v\<bar> < 1"
      by (rule round_aspect_bounds)
    have "preserve_aspect_ratio (x, y) (w, h) = Inr (Some (round_aspect v key, y))"
      using assms True
      by (auto simp add: preserve_aspect_ratio_def Let_def v_def key_def)
    with b assms show ?thesis by (simp add: v_def)
  next
    case False
    define key where "key = (\<lambda>n. if n = 0 then 0 else \<bar>?aspect - of_int x / of_int n\<bar>)"
    define v where "v = of_int x / ?aspect"
    have "0 < v" using pos apos by (simp add: v_def)
    moreover have "v \<le> of_int y" using False pos by (simp add: v_def field_simps)
    ultimately have b: "1 \<le> round_aspect v key \<and> round_aspect v key \<le> y
         \<and> \<bar>of_int (round_aspect v key) - v\<bar> < 1"
      by (rule round_aspect_bounds)
    have veq: "v = of_int x * (of_int h / of_int w)"
      by (simp add: v_def)
    have "?aspect \<noteq> 0" using assms by simp
    then have "preserve_aspect_ratio (x, y) (w, h) = Inr (Some (x, round_aspect v key))"
      using assms False
      by (auto simp add: preserve_aspect_ratio_def Let_def v_def key_def)
    with b assms show ?thesis by (simp add: veq)
  qed
qed

lemma thumbnail_fits:
  "width img \<le> x \<Longrightarrow> height img \<le> y \<Longrightarrow> thumbnail (x, y) img = Inr img"
  by (simp add: thumbnail_def preserve_aspect_ratio_def)

lemma thumbnail_shrinks:
  assumes "1 \<le> width img" "1 \<le> height img" "1 \<le> x" "1 \<le> y"
    "\<not> (width img \<le> x \<and> height img \<le> y)"
  shows "\<exists>x' y'. thumbnail (x, y) img = Inr (img\<lparr>width := x', height := y'\<rparr>)
           \<and> 1 \<le> x' \<and> x' \<le> x \<and> 1 \<le> y' \<and> y' \<le> y
           \<and> ((y' = y \<and> \<bar>of_int x' - of_int y * (of_int (width img) / of_int (height img) :: rat)\<bar> < 1)
              \<or> (x' = x \<and> \<bar>of_int y' - of_int x * (of_int (height img) / of_int (width img) :: rat)\<bar> < 1))"
proof -
  from preserve_aspect_ratio_bounds [OF assms] obtain x' y' where
    p: "preserve_aspect_ratio (x, y) (width img, height img) = Inr (Some (x', y'))"
    and b: "1 \<le> x' \<and> x' \<le> x \<and> 1 \<le> y' \<and> y' \<le> y
           \<and> ((y' = y \<and> \<bar>of_int x' - of_int y * (of_int (width img) / of_int (height img) :: rat)\<bar> < 1)
              \<or> (x' = x \<and> \<bar>of_int y' - of_int x * (of_int (height img) / of_int (width img) :: rat)\<bar> < 1))"
    by blast
  have "thumbnail (x, y) img = Inr (img\<lparr>width := x', height := y'\<rparr>)"
  proof (cases "(width img, height img) = (x', y')")
    case True
    then have "img\<lparr>width := x', height := y'\<rparr> = img" by auto
    with True p show ?thesis by (simp add: thumbnail_def)
  next
    case False
    with p b show ?thesis by (auto simp add: thumbnail_def)
  qed
  with b show ?thesis by blast
qed

lemma path_stem_example: "path_stem ''main/excursion/cover/photo.final.png'' = ''photo.final''"
  by (simp add: path_stem_def path_name_def rfind_def)

lemma thumbnail_4000_3000:
  "thumbnail (1280, 1280) \<lparr>width = 4000, height = 3000, mode = m, format = f, quality = q, optimize = b\<rparr>
     = Inr \<lparr>width = 1280, height = 960, mode = m, format = f, quality = q, optimize = b\<rparr>"
  by (simp add: thumbnail_def preserve_aspect_ratio_def round_aspect_def Let_def)

lemma compress_cover_example:
  "compress_image_field excursion_with_cover ''cover'' cover_policy
     = Inr (excursion_with_cover\<lparr>attrs := (attrs excursion_with_cover)(''cover'' \<mapsto> File compressed_cover)\<rparr>)"
  by (simp add: compress_image_field_def excursion_with_cover_def raw_cover_def cover_policy_def
      config_get_def default_max_width_def default_max_height_def default_quality_def
      thumbnail_4000_3000 Let_def compressed_cover_def
      path_stem_def path_name_def rfind_def)

text \<open>
  C4. Whenever \<open>_compress_image_field\<close> produces a payload for a field that holds a
  named file, the payload is written as JPEG with the configured (or default) quality
  and with \<open>optimize\<close> on, its content type is \<open>image/jpeg\<close>, and its name is the
  stem of the original name followed by \<open>.jpg\<close>.
\<close>

theorem compress_image_field_payload:
  assumes "compress_image_field self fn cfg = Inr self'"
    and "attrs self fn = Some (File f)" and "name f \<noteq> []"
  shows "\<exists>out. attrs self' fn = Some (File \<lparr>name = path_stem (name f) @ ''.jpg'',
                                              content_type = ''image/jpeg'',
                                              payload = Encoded out,
                                              committed = False\<rparr>)
           \<and> format out = ''JPEG''
           \<and> quality out = Some (config_get cfg ''quality'' default_quality)
           \<and> optimize out"
  using assms
  by (auto simp add: compress_image_field_def Let_def split: sum.splits)

theorem compress_image_field_payload_witness:
  "compress_image_field excursion_with_cover ''cover'' cover_policy
     = Inr (excursion_with_cover\<lparr>attrs := (attrs excursion_with_cover)(''cover'' \<mapsto> File compressed_cover)\<rparr>)
   \<and> attrs excursion_with_cover ''cover'' = Some (File raw_cover)
   \<and> name raw_cover = ''main/excursion/cover/photo.final.png''
   \<and> (\<exists>out. compressed_cover = \<lparr>name = ''photo.final.jpg'', content_type = ''image/jpeg'',
                                  payload = Encoded out, committed = False\<rparr>
         \<and> format out = ''JPEG'' \<and> quality out = Some 75 \<and> optimize out)"
proof -
  have a: "attrs excursion_with_cover ''cover'' = Some (File raw_cover)"
    by (simp add: excursion_with_cover_def)
  have n: "name raw_cover \<noteq> []"
    by (simp add: raw_cover_def)
  have ex: "\<exists>out. compressed_cover = \<lparr>name = ''photo.final.jpg'', content_type = ''image/jpeg'',
                                     payload = Encoded out, committed = False\<rparr>
             \<and> format out = ''JPEG'' \<and> quality out = Some 75 \<and> optimize out"
    using compress_image_field_payload [OF compress_cover_example a n]
    by (simp add: path_stem_example raw_cover_def cover_policy_def config_get_def)
  have r: "name raw_cover = ''main/excursion/cover/photo.final.png''"
    by (simp add: raw_cover_def)
  from compress_cover_example a r ex show ?thesis
    by (intro conjI)
qed

text \<open>
  C3. For a field holding a decodable image of at least one pixel a side and a policy
  whose bounds (taken from the map, or 1280 by 1280 when unspecified) are at least one
  pixel, \<open>_compress_image_field\<close> succeeds. When the image fits the bounding box its
  size is unchanged; otherwise both sides are within the bounds, one side is the bound
  itself and the other is less than one pixel away from the size that keeps the aspect
  ratio. The quality is the configured one, 70 when unspecified.
\<close>

theorem compress_image_field_size:
  assumes "attrs self fn = Some (File f)" and "name f \<noteq> []" and "payload f = Encoded img"
    and "1 \<le> width img" and "1 \<le> height img"
    and "mw = config_get cfg ''max_width'' default_max_width"
    and "mh = config_get cfg ''max_height'' default_max_height"
    and "1 \<le> mw" and "1 \<le> mh"
  shows "\<exists>self' f' out.
           compress_image_field self fn cfg = Inr self'
           \<and> attrs self' fn = Some (File f') \<and> payload f' = Encoded out
           \<and> (if width img \<le> mw \<and> height img \<le> mh
               then width out = width img \<and> height out = height img
               else 1 \<le> width out \<and> width out \<le> mw \<and> 1 \<le> height out \<and> height out \<le> mh
                    \<and> ((height out = mh
                         \<and> \<bar>of_int (width out)
                              - of_int mh * (of_int (width img) / of_int (height img) :: rat)\<bar> < 1)
                        \<or> (width out = mw
                            \<and> \<bar>of_int (height out)
                                 - of_int mw * (of_int (height img) / of_int (width img) :: rat)\<bar> < 1)))
           \<and> quality out = Some (case map_of cfg ''quality'' of None \<Rightarrow> 70 | Some q \<Rightarrow> q)
           \<and> mw = (case map_of cfg ''max_width'' of None \<Rightarrow> 1280 | Some v \<Rightarrow> v)
           \<and> mh = (case map_of cfg ''max_height'' of None \<Rightarrow> 1280 | Some v \<Rightarrow> v)"
proof -
  define rgb where "rgb = (if mode img \<noteq> ''RGB'' then img\<lparr>mode := ''RGB''\<rparr> else img)"
  define q where "q = config_get cfg ''quality'' default_quality"
  have wh: "width rgb = width img" "height rgb = height img"
    by (simp_all add: rgb_def)
  have dq: "q = (case map_of cfg ''quality'' of None \<Rightarrow> 70 | Some q \<Rightarrow> q)"
    by (simp add: q_def config_get_def default_quality_def)
  have dw: "mw = (case map_of cfg ''max_width'' of None \<Rightarrow> 1280 | Some v \<Rightarrow> v)"
    by (simp add: assms(6) config_get_def default_max_width_def)
  have dh: "mh = (case map_of cfg ''max_height'' of None \<Rightarrow> 1280 | Some v \<Rightarrow> v)"
    by (simp add: assms(7) config_get_def default_max_height_def)
  have step: "\<And>small. thumbnail (mw, mh) rgb = Inr small \<Longrightarrow>
     compress_image_field self fn cfg
       = Inr (self\<lparr>attrs := (attrs self)(fn \<mapsto> File \<lparr>name = path_stem (name f) @ ''.jpg'',
              content_type = ''image/jpeg'',
              payload = Encoded (small\<lparr>format := ''JPEG'', quality := Some q,
                                        optimize := True\<rparr>),
              committed = False\<rparr>)\<rparr>)"
    using assms(1-3) by (simp add: compress_image_field_def Let_def rgb_def q_def assms(6,7))
  have main: "\<exists>self' f' out.
           compress_image_field self fn cfg = Inr self'
           \<and> attrs self' fn = Some (File f') \<and> payload f' = Encoded out
           \<and> (if width img \<le> mw \<and> height img \<le> mh
               then width out = width img \<and> height out = height img
               else 1 \<le> width out \<and> width out \<le> mw \<and> 1 \<le> height out \<and> height out \<le> mh
                    \<and> ((height out = mh
                         \<and> \<bar>of_int (width out)
                              - of_int mh * (of_int (width img) / of_int (height img) :: rat)\<bar> < 1)
                        \<or> (width out = mw
                            \<and> \<bar>of_int (height out)
                                 - of_int mw * (of_int (height img) / of_int (width img) :: rat)\<bar> < 1)))
           \<and> quality out = Some q"
  proof (cases "width img \<le> mw \<and> height img \<le> mh")
    case True
    then have "thumbnail (mw, mh) rgb = Inr rgb"
      by (simp add: thumbnail_fits wh)
    from step [OF this] True show ?thesis
      by (simp add: wh)
  next
    case False
    then have "\<not> (width rgb \<le> mw \<and> height rgb \<le> mh)" by (simp add: wh)
    from thumbnail_shrinks [OF _ _ assms(8,9) this] assms(4,5) obtain x' y' where
      t: "thumbnail (mw, mh) rgb = Inr (rgb\<lparr>width := x', height := y'\<rparr>)"
      and b: "1 \<le> x' \<and> x' \<le> mw \<and> 1 \<le> y' \<and> y' \<le> mh
           \<and> ((y' = mh \<and> \<bar>of_int x' - of_int mh * (of_int (width img) / of_int (height img) :: rat)\<bar> < 1)
              \<or> (x' = mw \<and> \<bar>of_int y' - of_int mw * (of_int (height img) / of_int (width img) :: rat)\<bar> < 1))"
      by (auto simp add: wh)
    from b show ?thesis
      by (simp add: step [OF t] if_not_P [OF False])
  qed
  then obtain self' f' out where
    r1: "compress_image_field self fn cfg = Inr self'"
    and r2: "attrs self' fn = Some (File f')"
    and r3: "payload f' = Encoded out"
    and r4: "if width img \<le> mw \<and> height img \<le> mh
               then width out = width img \<and> height out = height img
               else 1 \<le> width out \<and> width out \<le> mw \<and> 1 \<le> height out \<and> height out \<le> mh
                    \<and> ((height out = mh
                         \<and> \<bar>of_int (width out)
                              - of_int mh * (of_int (width img) / of_int (height img) :: rat)\<bar> < 1)
                        \<or> (width out = mw
                            \<and> \<bar>of_int (height out)
                                 - of_int mw * (of_int (height img) / of_int (width img) :: rat)\<bar> < 1))"
    and r5: "quality out = Some q"
    by blast
  from r5 dq have r6: "quality out = Some (case map_of cfg ''quality'' of None \<Rightarrow> 70 | Some q \<Rightarrow> q)"
    by simp
  show ?thesis
    by (intro exI conjI) (rule r1, rule r2, rule r3, rule r4, rule r6, rule dw, rule dh)
qed

theorem compress_image_field_size_witness:
  "attrs excursion_with_cover ''cover'' = Some (File raw_cover) \<and> name raw_cover \<noteq> []
   \<and> payload raw_cover = Encoded \<lparr>width = 4000, height = 3000, mode = ''RGBA'', format = ''PNG'',
                         quality = None, optimize = False\<rparr>
   \<and> compress_image_field excursion_with_cover ''cover'' cover_policy
     = Inr (excursion_with_cover\<lparr>attrs := (attrs excursion_with_cover)(''cover'' \<mapsto> File compressed_cover)\<rparr>)
   \<and> (\<exists>out. payload compressed_cover = Encoded out \<and> width out = 1280 \<and> height out = 960)"
proof -
  let ?img = "\<lparr>width = 4000, height = 3000, mode = ''RGBA'', format = ''PNG'',
                         quality = None, optimize = False\<rparr>"
  have a: "attrs excursion_with_cover ''cover'' = Some (File raw_cover)"
    by (simp add: excursion_with_cover_def)
  have n: "name raw_cover \<noteq> []"
    by (simp add: raw_cover_def)
  have p: "payload raw_cover = Encoded ?img"
    by (simp add: raw_cover_def)
  have w: "1 \<le> width ?img" "1 \<le> height ?img" by simp_all
  have mw: "(1280::int) = config_get cover_policy ''max_width'' default_max_width"
    by (simp add: cover_policy_def config_get_def)
  have mh: "(1280::int) = config_get cover_policy ''max_height'' default_max_height"
    by (simp add: cover_policy_def config_get_def)
  have "\<exists>self' f' out.
           compress_image_field excursion_with_cover ''cover'' cover_policy = Inr self'
           \<and> attrs self' ''cover'' = Some (File f') \<and> payload f' = Encoded out
           \<and> width out \<le> 1280 \<and> height out \<le> 1280"
    using compress_image_field_size [OF a n p w mw mh] by auto
  then show ?thesis
    using a n p by (auto simp add: compress_cover_example compressed_cover_def)
qed

subsection \<open>Saving\<close>

text \<open>
  For the site settings the framework's \<open>Model.save\<close> is reached before the mixin, so
  \<open>save\<close> is the singleton check followed by one plain write.
\<close>

lemma save_SiteSettings:
  "cls self = SiteSettings \<Longrightarrow> save self d =
     (if pk self = None \<or> pk self = Some 0 then
        (if tables d SiteSettings \<noteq> [] then (Inl ValidationError, d)
         else Model_save None (self\<lparr>pk := Some 1\<rparr>) d)
      else Model_save None self d)"
  by (simp add: save_def)

text \<open>For the classes that name the mixin first, \<open>save\<close> is write, compress, write.\<close>

lemma save_mixin_first:
  assumes "cls self = Excursion \<or> cls self = ExcursionImage"
  shows "save self d =
     (case Model_save None self d of
        (Inl e, d1) \<Rightarrow> (Inl e, d1)
      | (Inr self1, d1) \<Rightarrow>
          (case compress_images self1 of
             Inl e \<Rightarrow> (Inl e, d1)
           | Inr self2 \<Rightarrow>
               (case image_compression_config (cls self2) of
                  None \<Rightarrow> (Inl AttributeError, d1)
                | Some items \<Rightarrow> Model_save (Some (map fst items)) self2 d1)))"
  using assms by (auto simp add: save_def split: prod.splits sum.splits option.splits)

text \<open>A full write that passes the constraints, in terms of the prepared instance.\<close>

lemma Model_save_None:
  assumes "k = (case pk self of None \<Rightarrow> next_pk (tables d (cls self)) | Some k \<Rightarrow> k)"
    and "pre_save (map_of (tables d (cls self)) k = None) (columns (cls self)) self d = (self', d')"
    and "r = (\<lambda>n. if n \<in> set (column_names (cls self)) then attrs self' n else None)"
    and "list_all (column_ok (tables d (cls self)) (tables d) k r) (columns (cls self))"
  shows "Model_save None self d =
     (Inr (self'\<lparr>pk := Some k\<rparr>),
      d'\<lparr>tables := (tables d')(cls self := AList.update k r (tables d (cls self))),
         writes := writes d' @ [Write (cls self) k None]\<rparr>)"
  using assms(2,4) unfolding assms(1,3)
  by (simp add: Model_save_def Let_def)

text \<open>Preparing the columns touches neither the instance's class and key nor the tables.\<close>

lemma pre_save_field_frame:
  assumes "pre_save_field add fld self d = (self', d')"
  shows "cls self' = cls self \<and> pk self' = pk self \<and> tables d' = tables d \<and> writes d' = writes d"
  using assms
  by (auto simp add: pre_save_field_def Let_def split: if_splits option.splits fval.splits)

lemma pre_save_frame:
  assumes "pre_save add flds self d = (self', d')"
  shows "cls self' = cls self \<and> pk self' = pk self \<and> tables d' = tables d \<and> writes d' = writes d"
  using assms
proof (induction flds arbitrary: self d)
  case Nil
  then show ?case by simp
next
  case (Cons fld flds)
  obtain s1 d1 where f: "pre_save_field add fld self d = (s1, d1)"
    by (cases "pre_save_field add fld self d")
  with Cons.prems have "pre_save add flds s1 d1 = (self', d')" by simp
  from Cons.IH [OF this] pre_save_field_frame [OF f] show ?case by simp
qed

text \<open>Preparing the columns renames a file and commits it; its bytes stay.\<close>

lemma pre_save_field_payload:
  assumes "pre_save_field add fld self d = (self', d')"
    and "attrs self n = Some (File f)"
    and "fname fld \<noteq> n \<or> (\<not> auto_now fld \<and> \<not> auto_now_add fld)"
  shows "\<exists>f'. attrs self' n = Some (File f') \<and> payload f' = payload f"
  using assms
  by (auto simp add: pre_save_field_def Let_def split: if_splits option.splits fval.splits)

lemma pre_save_payload:
  assumes "pre_save add flds self d = (self', d')"
    and "attrs self n = Some (File f)"
    and "list_all (\<lambda>fld. fname fld \<noteq> n \<or> (\<not> auto_now fld \<and> \<not> auto_now_add fld)) flds"
  shows "\<exists>f'. attrs self' n = Some (File f') \<and> payload f' = payload f"
  using assms
proof (induction flds arbitrary: self d f)
  case Nil
  then show ?case by simp
next
  case (Cons fld flds)
  obtain s1 d1 where s: "pre_save_field add fld self d = (s1, d1)"
    by (cases "pre_save_field add fld self d")
  from Cons.prems(3) have c: "fname fld \<noteq> n \<or> (\<not> auto_now fld \<and> \<not> auto_now_add fld)"
    and cs: "list_all (\<lambda>fld. fname fld \<noteq> n \<or> (\<not> auto_now fld \<and> \<not> auto_now_add fld)) flds"
    by simp_all
  from pre_save_field_payload [OF s Cons.prems(2) c] obtain f1 where
    f1: "attrs s1 n = Some (File f1)" "payload f1 = payload f" by blast
  from s Cons.prems(1) have "pre_save add flds s1 d1 = (self', d')" by simp
  from Cons.IH [OF this f1(1) cs] f1(2) show ?case by simp
qed

subsection \<open>The settings singleton\<close>

text \<open>A settings instance with every field at its default passes every constraint.\<close>

lemma pre_save_SiteSettings_defaults:
  "pre_save add (columns SiteSettings) \<lparr>cls = SiteSettings, pk = p, attrs = SiteSettings_defaults\<rparr> d
     = (\<lparr>cls = SiteSettings, pk = p, attrs = SiteSettings_defaults\<rparr>, d)"
  by (simp add: columns_def plain_field_def image_field_def pre_save_field_def
      SiteSettings_defaults_def)

lemma SiteSettings_defaults_row:
  "(\<lambda>n. if n \<in> set (column_names SiteSettings) then SiteSettings_defaults n else None)
     = SiteSettings_defaults"
  by (rule ext) (simp add: column_names_def plain_field_def image_field_def
      SiteSettings_defaults_def)

lemma SiteSettings_defaults_ok:
  "list_all (column_ok t tabs k SiteSettings_defaults) (columns SiteSettings)"
  by (simp add: columns_def plain_field_def image_field_def column_ok_def is_null_def
      SiteSettings_defaults_def)

lemma Model_save_defaults:
  assumes "map_of (tables d SiteSettings) 1 = None"
  shows "Model_save None \<lparr>cls = SiteSettings, pk = Some 1, attrs = SiteSettings_defaults\<rparr> d
     = (Inr \<lparr>cls = SiteSettings, pk = Some 1, attrs = SiteSettings_defaults\<rparr>,
        d\<lparr>tables := (tables d)(SiteSettings :=
                       AList.update 1 SiteSettings_defaults (tables d SiteSettings)),
          writes := writes d @ [Write SiteSettings 1 None]\<rparr>)"
proof -
  let ?self = "\<lparr>cls = SiteSettings, pk = Some 1, attrs = SiteSettings_defaults\<rparr>"
  have "Model_save None ?self d =
     (Inr (?self\<lparr>pk := Some 1\<rparr>),
      d\<lparr>tables := (tables d)(cls ?self := AList.update 1 SiteSettings_defaults (tables d (cls ?self))),
         writes := writes d @ [Write (cls ?self) 1 None]\<rparr>)"
  proof (rule Model_save_None)
    show "1 = (case pk ?self of None \<Rightarrow> next_pk (tables d (cls ?self)) | Some k \<Rightarrow> k)"
      by simp
    show "pre_save (map_of (tables d (cls ?self)) 1 = None) (columns (cls ?self)) ?self d = (?self, d)"
      by (simp add: pre_save_SiteSettings_defaults)
    show "SiteSettings_defaults
            = (\<lambda>n. if n \<in> set (column_names (cls ?self)) then attrs ?self n else None)"
      by (simp add: SiteSettings_defaults_row cong: if_cong)
    show "list_all (column_ok (tables d (cls ?self)) (tables d) 1 SiteSettings_defaults)
            (columns (cls ?self))"
      by (simp add: SiteSettings_defaults_ok)
  qed
  then show ?thesis by simp
qed

lemma load_existing:
  assumes "map_of (tables d SiteSettings) 1 = Some r"
  shows "load d = (Inr \<lparr>cls = SiteSettings, pk = Some 1, attrs = r\<rparr>, d)"
  using assms by (simp add: load_def)

lemma load_creates:
  assumes "map_of (tables d SiteSettings) 1 = None"
  shows "load d =
     (Inr \<lparr>cls = SiteSettings, pk = Some 1, attrs = SiteSettings_defaults\<rparr>,
      d\<lparr>tables := (tables d)(SiteSettings :=
                     AList.update 1 SiteSettings_defaults (tables d SiteSettings)),
        writes := writes d @ [Write SiteSettings 1 None]\<rparr>)"
  using assms by (simp add: load_def save_SiteSettings Model_save_defaults)

text \<open>
  C5. On every database \<open>SiteSettings.load()\<close> returns the settings record with key
  1, and that record is the row stored under key 1 afterwards: when the row exists it
  is returned and nothing changes; when it does not, a row with every field at its
  default is written under key 1 (one write, nothing else changed) and returned. A
  further call returns the same record and changes nothing. Saving a settings instance
  without key while a settings record exists raises the validation error and leaves the
  database as it was.
\<close>

theorem SiteSettings_singleton:
  "(\<exists>obj d' r.
      load d = (Inr obj, d') \<and> obj = \<lparr>cls = SiteSettings, pk = Some 1, attrs = r\<rparr>
      \<and> map_of (tables d' SiteSettings) 1 = Some r
      \<and> (case map_of (tables d SiteSettings) 1 of
            Some r0 \<Rightarrow> r = r0 \<and> d' = d
          | None \<Rightarrow>
              r = SiteSettings_defaults
              \<and> d' = d\<lparr>tables := (tables d)(SiteSettings :=
                                     AList.update 1 SiteSettings_defaults (tables d SiteSettings)),
                        writes := writes d @ [Write SiteSettings 1 None]\<rparr>)
      \<and> load d' = (Inr obj, d'))
   \<and> (cls self = SiteSettings \<and> pk self = None \<and> tables d SiteSettings \<noteq> []
        \<longrightarrow> save self d = (Inl ValidationError, d))"
proof (intro conjI impI)
  show "\<exists>obj d' r.
      load d = (Inr obj, d') \<and> obj = \<lparr>cls = SiteSettings, pk = Some 1, attrs = r\<rparr>
      \<and> map_of (tables d' SiteSettings) 1 = Some r
      \<and> (case map_of (tables d SiteSettings) 1 of
            Some r0 \<Rightarrow> r = r0 \<and> d' = d
          | None \<Rightarrow>
              r = SiteSettings_defaults
              \<and> d' = d\<lparr>tables := (tables d)(SiteSettings :=
                                     AList.update 1 SiteSettings_defaults (tables d SiteSettings)),
                        writes := writes d @ [Write SiteSettings 1 None]\<rparr>)
      \<and> load d' = (Inr obj, d')"
  proof (cases "map_of (tables d SiteSettings) 1")
    case None
    let ?d' = "d\<lparr>tables := (tables d)(SiteSettings :=
                     AList.update 1 SiteSettings_defaults (tables d SiteSettings)),
                 writes := writes d @ [Write SiteSettings 1 None]\<rparr>"
    have stored: "map_of (tables ?d' SiteSettings) 1 = Some SiteSettings_defaults"
      by (simp add: update_conv')
    from load_creates [OF None] load_existing [OF stored] stored None show ?thesis
      by simp
  next
    case (Some r0)
    from load_existing [OF Some] Some show ?thesis by simp
  qed
next
  assume "cls self = SiteSettings \<and> pk self = None \<and> tables d SiteSettings \<noteq> []"
  then show "save self d = (Inl ValidationError, d)"
    by (simp add: save_SiteSettings)
qed

theorem SiteSettings_singleton_witness:
  "(\<exists>obj d'. load empty_db = (Inr obj, d') \<and> cls obj = SiteSettings \<and> pk obj = Some 1
      \<and> map_of (tables d' SiteSettings) 1 = Some SiteSettings_defaults
      \<and> writes d' = [Write SiteSettings 1 None]
      \<and> load d' = (Inr obj, d'))
   \<and> cls second_settings = SiteSettings \<and> pk second_settings = None
   \<and> tables settings_db SiteSettings \<noteq> []
   \<and> save second_settings settings_db = (Inl ValidationError, settings_db)"
proof -
  have h: "cls second_settings = SiteSettings \<and> pk second_settings = None
           \<and> tables settings_db SiteSettings \<noteq> []"
    by (simp add: second_settings_def settings_db_def)
  have e: "map_of (tables empty_db SiteSettings) 1 = None" "writes empty_db = []"
    by (simp_all add: empty_db_def)
  have "\<exists>obj d'. load empty_db = (Inr obj, d') \<and> cls obj = SiteSettings \<and> pk obj = Some 1
      \<and> map_of (tables d' SiteSettings) 1 = Some SiteSettings_defaults
      \<and> writes d' = [Write SiteSettings 1 None]
      \<and> load d' = (Inr obj, d')"
    using SiteSettings_singleton [of empty_db second_settings] e
    by auto
  moreover have "save second_settings settings_db = (Inl ValidationError, settings_db)"
    using h SiteSettings_singleton [of settings_db second_settings] by blast
  ultimately show ?thesis using h by blast
qed

subsection \<open>The save hook\<close>

text \<open>
  C1. The claim is that after a save of any entity with a non-empty policy map the
  stored record holds the compressed form of the configured fields, after two writes.
  The site settings have a non-empty policy map, yet saving the settings record with a
  freshly uploaded 4000 x 3000 PNG banner makes one write only, and the stored
  \<open>banner_image\<close> is the upload as it came, committed under its upload path. The key
  \<open>banner\<close> of the policy map names no column of the model either; the image column
  is \<open>banner_image\<close>.
\<close>

theorem SiteSettings_save_keeps_raw_banner:
  "map_sum id (\<lambda>self. (cls self, pk self, attrs self ''banner_image''))
     (fst (save settings_with_banner settings_db))
     = Inr (SiteSettings, Some 1, Some (File stored_banner))
   \<and> writes (snd (save settings_with_banner settings_db)) = [Write SiteSettings 1 None]
   \<and> map_option (\<lambda>r. r ''banner_image'')
        (map_of (tables (snd (save settings_with_banner settings_db)) SiteSettings) 1)
       = Some (Some (File stored_banner))
   \<and> stored_banner = \<lparr>name = ''main/sitesettings/logo/banner.png'', content_type = ''image/png'',
                        payload = png_4000_3000, committed = True\<rparr>
   \<and> attrs settings_with_banner ''banner_image''
       = Some (File \<lparr>name = ''banner.png'', content_type = ''image/png'',
                      payload = png_4000_3000, committed = False\<rparr>)
   \<and> image_compression_config SiteSettings
       = Some [(''banner'', [(''max_width'', 1080), (''max_height'', 520), (''quality'', 75)])]
   \<and> ''banner'' \<notin> set (column_names SiteSettings)
   \<and> ''banner_image'' \<in> set (column_names SiteSettings)"
  by code_simp

text \<open>
  The sibling path: saving a new excursion with a 4000 x 3000 PNG cover makes the two
  writes and stores the compressed cover; the storage then holds both files.
\<close>

lemma Excursion_save_example:
  "writes (snd (save new_excursion empty_db))
     = [Write Excursion 1 None, Write Excursion 1 (Some [''cover'', ''cover_head''])]
   \<and> map_option (\<lambda>r. r ''cover'')
        (map_of (tables (snd (save new_excursion empty_db)) Excursion) 1)
       = Some (Some (File stored_cover))
   \<and> stored_names (snd (save new_excursion empty_db))
       = [''main/excursion/cover/photo.final.jpg'', ''main/excursion/cover/photo.final.png'']"
  by code_simp

lemma compress_undecodable:
  "attrs self fn = Some (File f) \<Longrightarrow> name f \<noteq> [] \<Longrightarrow> payload f = NotAnImage
   \<Longrightarrow> compress_image_field self fn cfg = Inl UnidentifiedImageError"
  by (simp add: compress_image_field_def)

text \<open>The fields of a policy map are columns that no date rule overwrites.\<close>

lemma image_columns:
  assumes "cls self = Excursion \<or> cls self = ExcursionImage"
    and "image_compression_config (cls self) = Some items"
    and "n \<in> set (map fst items)"
  shows "n \<in> set (column_names (cls self))
    \<and> list_all (\<lambda>fld. fname fld \<noteq> n \<or> (\<not> auto_now fld \<and> \<not> auto_now_add fld))
         (columns (cls self))"
  using assms
  by (auto simp add: image_compression_config_def column_names_def columns_def plain_field_def
      image_field_def unique_field_def foreign_key_def positive_field_def auto_now_field_def
      auto_now_add_field_def)

text \<open>
  C6. For an excursion or a gallery image whose first, plain write succeeds: when
  compressing the fields of the written instance raises the decoding error, \<open>save\<close>
  raises that error and the database is the one the first write left. That write is
  the only one made, the row it stored holds the attributes of the written instance,
  and a file that a field of the policy map held before the save is stored with the
  bytes it was uploaded with. (Nothing around the call is taken to undo the first
  write.)
\<close>

theorem decode_failure_leaves_raw_upload:
  assumes "cls self = Excursion \<or> cls self = ExcursionImage"
    and "Model_save None self d = (Inr self1, d1)"
    and "compress_images self1 = Inl UnidentifiedImageError"
    and "image_compression_config (cls self) = Some items"
    and "n \<in> set (map fst items)"
    and "attrs self n = Some (File f)"
  shows "save self d = (Inl UnidentifiedImageError, d1)
    \<and> (\<exists>k r f'. pk self1 = Some k
          \<and> writes d1 = writes d @ [Write (cls self) k None]
          \<and> map_of (tables d1 (cls self)) k = Some r
          \<and> r = (\<lambda>m. if m \<in> set (column_names (cls self)) then attrs self1 m else None)
          \<and> r n = Some (File f') \<and> payload f' = payload f)"
proof -
  define k where "k = (case pk self of None \<Rightarrow> next_pk (tables d (cls self)) | Some k \<Rightarrow> k)"
  obtain s' d' where
    p: "pre_save (map_of (tables d (cls self)) k = None) (columns (cls self)) self d = (s', d')"
    by (cases "pre_save (map_of (tables d (cls self)) k = None) (columns (cls self)) self d")
  define r where "r = (\<lambda>m. if m \<in> set (column_names (cls self)) then attrs s' m else None)"
  from assms(2) p have s1: "self1 = s'\<lparr>pk := Some k\<rparr>"
    and d1: "d1 = d'\<lparr>tables := (tables d')(cls self := AList.update k r (tables d (cls self))),
                    writes := writes d' @ [Write (cls self) k None]\<rparr>"
    by (auto simp add: Model_save_def Let_def k_def r_def split: if_splits)
  from pre_save_frame [OF p] have fr: "tables d' = tables d" "writes d' = writes d"
    by simp_all
  from image_columns [OF assms(1,4,5)] have col: "n \<in> set (column_names (cls self))"
    and auto: "list_all (\<lambda>fld. fname fld \<noteq> n \<or> (\<not> auto_now fld \<and> \<not> auto_now_add fld))
         (columns (cls self))"
    by simp_all
  from pre_save_payload [OF p assms(6) auto] obtain f' where
    f': "attrs s' n = Some (File f')" "payload f' = payload f" by blast
  have "save self d = (Inl UnidentifiedImageError, d1)"
    by (simp add: save_mixin_first [OF assms(1)] assms(2,3))
  moreover have "pk self1 = Some k" by (simp add: s1)
  moreover have "writes d1 = writes d @ [Write (cls self) k None]" by (simp add: d1 fr)
  moreover have "map_of (tables d1 (cls self)) k = Some r" by (simp add: d1 update_conv')
  moreover have "r = (\<lambda>m. if m \<in> set (column_names (cls self)) then attrs self1 m else None)"
    by (simp add: r_def s1 cong: if_cong)
  moreover have "r n = Some (File f')" by (simp add: r_def col f')
  ultimately show ?thesis using f'(2) by blast
qed

theorem decode_failure_leaves_raw_upload_witness:
  "(cls gallery_item = Excursion \<or> cls gallery_item = ExcursionImage)
   \<and> image_compression_config (cls gallery_item)
       = Some [(''image'', [(''max_width'', 1280), (''max_height'', 1280), (''quality'', 75)])]
   \<and> attrs gallery_item ''image'' = Some (File broken_upload)
   \<and> payload broken_upload = NotAnImage
   \<and> (\<exists>self1 d1. Model_save None gallery_item tour_db = (Inr self1, d1)
         \<and> compress_images self1 = Inl UnidentifiedImageError
         \<and> save gallery_item tour_db = (Inl UnidentifiedImageError, d1)
         \<and> writes d1 = [Write ExcursionImage 1 None]
         \<and> (\<exists>r f'. map_of (tables d1 ExcursionImage) 1 = Some r
               \<and> r ''image'' = Some (File f') \<and> payload f' = NotAnImage))"
proof -
  have c: "cls gallery_item = Excursion \<or> cls gallery_item = ExcursionImage"
    by (simp add: gallery_item_def)
  have i: "image_compression_config (cls gallery_item)
       = Some [(''image'', [(''max_width'', 1280), (''max_height'', 1280), (''quality'', 75)])]"
    by (simp add: gallery_item_def image_compression_config_def)
  have n: "''image'' \<in> set (map fst [(''image'', [(''max_width'', 1280::int),
              (''max_height'', 1280), (''quality'', 75)])])"
    by simp
  have a: "attrs gallery_item ''image'' = Some (File broken_upload)"
    by (simp add: gallery_item_def)
  have b: "payload broken_upload = NotAnImage"
    by (simp add: broken_upload_def)
  have w: "writes tour_db = []" "cls gallery_item = ExcursionImage"
    by (simp_all add: tour_db_def empty_db_def gallery_item_def)
  have ok: "map_sum id (\<lambda>s. ()) (fst (Model_save None gallery_item tour_db)) = Inr ()"
    by code_simp
  have er: "(case fst (Model_save None gallery_item tour_db) of
               Inl e \<Rightarrow> Inl e
             | Inr s \<Rightarrow> map_sum id (\<lambda>s. ()) (compress_images s)) = Inl UnidentifiedImageError"
    by code_simp
  have kk: "map_sum id pk (fst (Model_save None gallery_item tour_db)) = Inr (Some 1)"
    by code_simp
  obtain x d1 where m: "Model_save None gallery_item tour_db = (x, d1)"
    by (cases "Model_save None gallery_item tour_db")
  with ok obtain self1 where x: "x = Inr self1"
    by (cases x) simp_all
  from er m x have e: "compress_images self1 = Inl UnidentifiedImageError"
    by (cases "compress_images self1") simp_all
  from kk m x have k1: "pk self1 = Some 1" by simp
  from m x have m': "Model_save None gallery_item tour_db = (Inr self1, d1)" by simp
  from decode_failure_leaves_raw_upload [OF c m' e i n a] k1 b w
  have "save gallery_item tour_db = (Inl UnidentifiedImageError, d1)
         \<and> writes d1 = [Write ExcursionImage 1 None]
         \<and> (\<exists>r f'. map_of (tables d1 ExcursionImage) 1 = Some r
               \<and> r ''image'' = Some (File f') \<and> payload f' = NotAnImage)"
    by auto
  with c i a b m' e show ?thesis by blast
qed

end
